theory Spec2Isabelle
  imports Main "HOL-Library.Word"
begin

section \<open>The resource cache of libs/hwui/ResourceCache.cpp\<close>

subsection \<open>Data\<close>

text \<open>
  A resource is known to the cache by its address (\<^verbatim>\<open>void*\<close>); the model takes an
  address to be a natural number.
\<close>

type_synonym resource = nat

datatype ResourceType = kBitmap | kMatrix | kPaint | kShader

text \<open>
  Modelled from the spec: \<^verbatim>\<open>ResourceReference\<close> is declared in ResourceCache.h, which is
  not among the sources; ResourceCache.cpp reads and writes its fields \<^verbatim>\<open>refCount\<close>,
  \<^verbatim>\<open>recycled\<close>, \<^verbatim>\<open>destroyed\<close> and \<^verbatim>\<open>resourceType\<close>, and the spec gives the
  constructor: a fresh reference has count 0 and both flags false.
  \<^verbatim>\<open>logCache\<close> prints the count with \<^verbatim>\<open>%d\<close>: it is a 32-bit \<^verbatim>\<open>int\<close>. The model holds
  it as a 32-bit word, read as a signed number by \<^term>\<open>sint\<close>; \<^verbatim>\<open>refCount++\<close> and
  \<^verbatim>\<open>refCount--\<close> are the word's \<open>+ 1\<close> and \<open>- 1\<close>, which wrap around as the machine's
  two's complement arithmetic does: one more than 2147483647 is -2147483648.
\<close>

record ResourceReference =
  refCount :: "32 word"
  recycled :: bool
  destroyed :: bool
  resourceType :: ResourceType

definition new_ResourceReference :: "ResourceType \<Rightarrow> ResourceReference" where
  "new_ResourceReference ty =
     \<lparr>refCount = 0, recycled = False, destroyed = False, resourceType = ty\<rparr>"

text \<open>
  \<^verbatim>\<open>mCache\<close> is a \<^verbatim>\<open>KeyedVector<void*, ResourceReference*>\<close>: at most one reference per
  address. \<^verbatim>\<open>indexOfKey(r) >= 0 ? valueFor(r) : NULL\<close> is the lookup \<open>mCache r\<close>,
  \<^verbatim>\<open>add\<close> and the writes through the pointer are map updates, \<^verbatim>\<open>removeItem\<close> deletes
  the key, and \<^verbatim>\<open>size() == 0\<close> says that the map is empty.
\<close>

type_synonym KeyedVector = "resource \<rightharpoonup> ResourceReference"

text \<open>
  What the cache does to the world outside \<^verbatim>\<open>mCache\<close> is recorded as a list of effects,
  in the order of the calls. A handle names an object reached from a resource.
\<close>

datatype handle = pixelRef resource | getColorTable resource | getSkShader resource

datatype effect =
    safeRef handle
  | safeUnref handle
  | setPixels_NULL resource
  | textureCache_remove resource
  | gradientCache_remove handle
  | delete resource

subsection \<open>Operations\<close>

text \<open>
  Every operation takes the answer \<open>hasInstance\<close> of \<^verbatim>\<open>Caches::hasInstance()\<close> (the
  singleton lives outside this file) and the cache, and returns the effects and the new
  cache.
\<close>

definition deleteResourceReference ::
  "bool \<Rightarrow> resource \<Rightarrow> ResourceReference \<Rightarrow> KeyedVector \<Rightarrow> effect list \<times> KeyedVector" where
  "deleteResourceReference hasInstance resource ref mCache =
     ((if recycled ref \<and> resourceType ref = kBitmap then [setPixels_NULL resource] else []) @
      (if destroyed ref then
         (case resourceType ref of
            kBitmap \<Rightarrow>
              (if hasInstance then [textureCache_remove resource] else []) @ [delete resource]
          | kMatrix \<Rightarrow> [delete resource]
          | kPaint \<Rightarrow> [delete resource]
          | kShader \<Rightarrow>
              (if hasInstance then [gradientCache_remove (getSkShader resource)] else []) @
              [delete resource])
       else []),
      mCache(resource := None))"

text \<open>
  The loop at the head of \<^verbatim>\<open>incrementRefcount\<close> reads each value of \<^verbatim>\<open>mCache\<close> and does
  nothing with it; it is left out. The test \<^verbatim>\<open>ref == NULL || mCache->size() == 0\<close> is
  kept as the source has it.
\<close>

definition incrementRefcount ::
  "resource \<Rightarrow> ResourceType \<Rightarrow> KeyedVector \<Rightarrow> effect list \<times> KeyedVector" where
  "incrementRefcount resource ty mCache =
     (let fresh = new_ResourceReference ty in
      case mCache resource of
        None \<Rightarrow> ([], mCache(resource \<mapsto> fresh\<lparr>refCount := refCount fresh + 1\<rparr>))
      | Some ref \<Rightarrow>
          if mCache = Map.empty
          then ([], mCache(resource \<mapsto> fresh\<lparr>refCount := refCount fresh + 1\<rparr>))
          else ([], mCache(resource \<mapsto> ref\<lparr>refCount := refCount ref + 1\<rparr>)))"

definition incrementRefcount_SkBitmap :: "resource \<Rightarrow> KeyedVector \<Rightarrow> effect list \<times> KeyedVector" where
  "incrementRefcount_SkBitmap bitmapResource mCache =
     (let (es, mCache') = incrementRefcount bitmapResource kBitmap mCache
      in ([safeRef (pixelRef bitmapResource), safeRef (getColorTable bitmapResource)] @ es, mCache'))"

definition incrementRefcount_SkMatrix :: "resource \<Rightarrow> KeyedVector \<Rightarrow> effect list \<times> KeyedVector" where
  "incrementRefcount_SkMatrix matrixResource mCache = incrementRefcount matrixResource kMatrix mCache"

definition incrementRefcount_SkPaint :: "resource \<Rightarrow> KeyedVector \<Rightarrow> effect list \<times> KeyedVector" where
  "incrementRefcount_SkPaint paintResource mCache = incrementRefcount paintResource kPaint mCache"

definition incrementRefcount_SkiaShader :: "resource \<Rightarrow> KeyedVector \<Rightarrow> effect list \<times> KeyedVector" where
  "incrementRefcount_SkiaShader shaderResource mCache =
     (let (es, mCache') = incrementRefcount shaderResource kShader mCache
      in ([safeRef (getSkShader shaderResource)] @ es, mCache'))"

definition decrementRefcount ::
  "bool \<Rightarrow> resource \<Rightarrow> KeyedVector \<Rightarrow> effect list \<times> KeyedVector" where
  "decrementRefcount hasInstance resource mCache =
     (case mCache resource of
        None \<Rightarrow> ([], mCache)
      | Some ref0 \<Rightarrow>
          (let ref = ref0\<lparr>refCount := refCount ref0 - 1\<rparr>;
               mCache' = mCache(resource \<mapsto> ref)
           in if refCount ref = 0
              then deleteResourceReference hasInstance resource ref mCache'
              else ([], mCache')))"

definition decrementRefcount_SkBitmap ::
  "bool \<Rightarrow> resource \<Rightarrow> KeyedVector \<Rightarrow> effect list \<times> KeyedVector" where
  "decrementRefcount_SkBitmap hasInstance bitmapResource mCache =
     (let (es, mCache') = decrementRefcount hasInstance bitmapResource mCache
      in ([safeUnref (pixelRef bitmapResource), safeUnref (getColorTable bitmapResource)] @ es,
          mCache'))"

definition decrementRefcount_SkiaShader ::
  "bool \<Rightarrow> resource \<Rightarrow> KeyedVector \<Rightarrow> effect list \<times> KeyedVector" where
  "decrementRefcount_SkiaShader hasInstance shaderResource mCache =
     (let (es, mCache') = decrementRefcount hasInstance shaderResource mCache
      in ([safeUnref (getSkShader shaderResource)] @ es, mCache'))"

definition recycle ::
  "bool \<Rightarrow> resource \<Rightarrow> KeyedVector \<Rightarrow> effect list \<times> KeyedVector" where
  "recycle hasInstance resource mCache =
     (case mCache resource of
        None \<Rightarrow> ([], mCache)
      | Some ref0 \<Rightarrow>
          (let ref = ref0\<lparr>recycled := True\<rparr>;
               mCache' = mCache(resource \<mapsto> ref)
           in if refCount ref = 0
              then deleteResourceReference hasInstance resource ref mCache'
              else ([], mCache')))"

definition recycle_SkBitmap ::
  "bool \<Rightarrow> resource \<Rightarrow> KeyedVector \<Rightarrow> effect list \<times> KeyedVector" where
  "recycle_SkBitmap hasInstance resource mCache =
     (if mCache resource = None
      then ([setPixels_NULL resource], mCache)
      else recycle hasInstance resource mCache)"

text \<open>
  The four destructors differ only in what they do to a resource that is not tracked;
  \<open>destructor_tracked\<close> is the part they share (\<^verbatim>\<open>ref->destroyed = true\<close> and the test of
  the count).
\<close>

definition destructor_tracked ::
  "bool \<Rightarrow> resource \<Rightarrow> ResourceReference \<Rightarrow> KeyedVector \<Rightarrow> effect list \<times> KeyedVector" where
  "destructor_tracked hasInstance resource ref0 mCache =
     (let ref = ref0\<lparr>destroyed := True\<rparr>;
          mCache' = mCache(resource \<mapsto> ref)
      in if refCount ref = 0
         then deleteResourceReference hasInstance resource ref mCache'
         else ([], mCache'))"

definition destructor_SkBitmap ::
  "bool \<Rightarrow> resource \<Rightarrow> KeyedVector \<Rightarrow> effect list \<times> KeyedVector" where
  "destructor_SkBitmap hasInstance resource mCache =
     (case mCache resource of
        None \<Rightarrow>
          ((if hasInstance then [textureCache_remove resource] else []) @ [delete resource], mCache)
      | Some ref \<Rightarrow> destructor_tracked hasInstance resource ref mCache)"

definition destructor_SkMatrix ::
  "bool \<Rightarrow> resource \<Rightarrow> KeyedVector \<Rightarrow> effect list \<times> KeyedVector" where
  "destructor_SkMatrix hasInstance resource mCache =
     (case mCache resource of
        None \<Rightarrow> ([delete resource], mCache)
      | Some ref \<Rightarrow> destructor_tracked hasInstance resource ref mCache)"

definition destructor_SkPaint ::
  "bool \<Rightarrow> resource \<Rightarrow> KeyedVector \<Rightarrow> effect list \<times> KeyedVector" where
  "destructor_SkPaint hasInstance resource mCache =
     (case mCache resource of
        None \<Rightarrow> ([delete resource], mCache)
      | Some ref \<Rightarrow> destructor_tracked hasInstance resource ref mCache)"

definition destructor_SkiaShader ::
  "bool \<Rightarrow> resource \<Rightarrow> KeyedVector \<Rightarrow> effect list \<times> KeyedVector" where
  "destructor_SkiaShader hasInstance resource mCache =
     (case mCache resource of
        None \<Rightarrow>
          ((if hasInstance then [gradientCache_remove (getSkShader resource)] else []) @
           [delete resource], mCache)
      | Some ref \<Rightarrow> destructor_tracked hasInstance resource ref mCache)"

text \<open>The destructor of the overload that belongs to a resource type.\<close>

fun destructor :: "ResourceType \<Rightarrow> bool \<Rightarrow> resource \<Rightarrow> KeyedVector \<Rightarrow> effect list \<times> KeyedVector" where
  "destructor kBitmap = destructor_SkBitmap"
| "destructor kMatrix = destructor_SkMatrix"
| "destructor kPaint = destructor_SkPaint"
| "destructor kShader = destructor_SkiaShader"

subsection \<open>Sequences of calls\<close>

datatype call =
    IncrementRefcount resource ResourceType
  | IncrementRefcount_SkBitmap resource
  | IncrementRefcount_SkMatrix resource
  | IncrementRefcount_SkPaint resource
  | IncrementRefcount_SkiaShader resource
  | DecrementRefcount resource
  | DecrementRefcount_SkBitmap resource
  | DecrementRefcount_SkiaShader resource
  | Recycle resource
  | Recycle_SkBitmap resource
  | Destructor ResourceType resource

fun exec :: "bool \<Rightarrow> call \<Rightarrow> KeyedVector \<Rightarrow> effect list \<times> KeyedVector" where
  "exec h (IncrementRefcount r ty) m = incrementRefcount r ty m"
| "exec h (IncrementRefcount_SkBitmap r) m = incrementRefcount_SkBitmap r m"
| "exec h (IncrementRefcount_SkMatrix r) m = incrementRefcount_SkMatrix r m"
| "exec h (IncrementRefcount_SkPaint r) m = incrementRefcount_SkPaint r m"
| "exec h (IncrementRefcount_SkiaShader r) m = incrementRefcount_SkiaShader r m"
| "exec h (DecrementRefcount r) m = decrementRefcount h r m"
| "exec h (DecrementRefcount_SkBitmap r) m = decrementRefcount_SkBitmap h r m"
| "exec h (DecrementRefcount_SkiaShader r) m = decrementRefcount_SkiaShader h r m"
| "exec h (Recycle r) m = recycle h r m"
| "exec h (Recycle_SkBitmap r) m = recycle_SkBitmap h r m"
| "exec h (Destructor ty r) m = destructor ty h r m"

text \<open>
  \<open>run\<close> performs the calls from left to right on a cache and collects the effects.
\<close>

fun run :: "bool \<Rightarrow> call list \<Rightarrow> KeyedVector \<Rightarrow> effect list \<times> KeyedVector" where
  "run h [] m = ([], m)"
| "run h (c # cs) m =
     (let (es, m') = exec h c m; (es', m'') = run h cs m' in (es @ es', m''))"

text \<open>The resource a call is about, and the kinds of call.\<close>

fun target :: "call \<Rightarrow> resource" where
  "target (IncrementRefcount r ty) = r"
| "target (IncrementRefcount_SkBitmap r) = r"
| "target (IncrementRefcount_SkMatrix r) = r"
| "target (IncrementRefcount_SkPaint r) = r"
| "target (IncrementRefcount_SkiaShader r) = r"
| "target (DecrementRefcount r) = r"
| "target (DecrementRefcount_SkBitmap r) = r"
| "target (DecrementRefcount_SkiaShader r) = r"
| "target (Recycle r) = r"
| "target (Recycle_SkBitmap r) = r"
| "target (Destructor ty r) = r"

fun is_increment :: "call \<Rightarrow> bool" where
  "is_increment (IncrementRefcount r ty) = True"
| "is_increment (IncrementRefcount_SkBitmap r) = True"
| "is_increment (IncrementRefcount_SkMatrix r) = True"
| "is_increment (IncrementRefcount_SkPaint r) = True"
| "is_increment (IncrementRefcount_SkiaShader r) = True"
| "is_increment _ = False"

fun is_decrement :: "call \<Rightarrow> bool" where
  "is_decrement (DecrementRefcount r) = True"
| "is_decrement (DecrementRefcount_SkBitmap r) = True"
| "is_decrement (DecrementRefcount_SkiaShader r) = True"
| "is_decrement _ = False"

definition is_recycle_of :: "resource \<Rightarrow> call \<Rightarrow> bool" where
  "is_recycle_of r c \<longleftrightarrow> c = Recycle r \<or> c = Recycle_SkBitmap r"

text \<open>
  \<open>incs r cs\<close> is the number of increments of the resource \<open>r\<close> among the calls \<open>cs\<close>.
  \<open>refCount_in r n m\<close> says that \<open>r\<close>, if it is tracked in \<open>m\<close>, has a count between 1
  and \<open>n\<close>, read as an unsigned number.
\<close>

definition incs :: "resource \<Rightarrow> call list \<Rightarrow> nat" where
  "incs r cs = length (filter (\<lambda>c. is_increment c \<and> target c = r) cs)"


section \<open>The bounded recency cache behind libs/hwui/LayerCache.h\<close>

text \<open>
  LayerCache.h declares the layer cache: \<^verbatim>\<open>get\<close>, \<^verbatim>\<open>put\<close>, \<^verbatim>\<open>clear\<close>, \<^verbatim>\<open>setMaxSize\<close>,
  \<^verbatim>\<open>getMaxSize\<close>, \<^verbatim>\<open>getSize\<close>, the removal callback \<^verbatim>\<open>operator()\<close>, and the fields
  \<^verbatim>\<open>mCache\<close> (a \<^verbatim>\<open>GenerationCache<LayerSize, Layer*>\<close>), \<^verbatim>\<open>mSize\<close> and \<^verbatim>\<open>mMaxSize\<close>.
  The bodies (LayerCache.cpp) and the generation cache (GenerationCache.h) are not among
  the sources, so the operations are modelled from the spec's description of the bounded
  recency cache, of which the layer pool is the instance with \<^verbatim>\<open>LayerSize\<close> keys, layers
  as values and the byte size of a layer as its weight.
\<close>

subsection \<open>Data\<close>

text \<open>
  Modelled from the spec: the state of the cache (LayerCache.cpp and GenerationCache.h
  are missing). \<open>entries\<close> is ordered by recency, the least recently used entry first and
  the most recently used last; \<open>currentWeight\<close> and \<open>maxWeight\<close> are the header's \<^verbatim>\<open>mSize\<close>
  and \<^verbatim>\<open>mMaxSize\<close>. The header declares them \<^verbatim>\<open>uint32_t\<close>; the spec computes with plain
  numbers, and so does the model: it describes the cache as long as the sums it forms
  stay below \<open>2 ^ 32\<close>, which lemma \<open>put_sum_below_2_32\<close> shows they do for a budget below
  \<open>2 ^ 31\<close>. The weight of a value is a parameter \<open>weight\<close> of the operations (constantly
  1 for a cache bounded by its number of entries).
\<close>

record ('k, 'v) cache =
  entries :: "('k \<times> 'v) list"
  currentWeight :: nat
  maxWeight :: nat


subsection \<open>Operations\<close>








subsection \<open>Sequences of calls\<close>





text \<open>The sum of the weights of the entries, and the invariant of the data model.\<close>

definition total_weight :: "('v \<Rightarrow> nat) \<Rightarrow> ('k \<times> 'v) list \<Rightarrow> nat" where
  "total_weight weight es = sum_list (map (\<lambda>(k, v). weight v) es)"

definition weight_ok :: "('v \<Rightarrow> nat) \<Rightarrow> ('k, 'v) cache \<Rightarrow> bool" where
  "weight_ok weight c \<longleftrightarrow>
     currentWeight c = total_weight weight (entries c) \<and> currentWeight c \<le> maxWeight c"

section \<open>Properties of the resource cache\<close>

subsection \<open>Signed and unsigned readings of a 32-bit count\<close>

lemma word_minus_one_eq_0: "(w - 1 = 0) = (w = (1::32 word))"
  by auto



lemma sint_eq_unat: "unat (w::32 word) < 2147483648 \<Longrightarrow> sint w = int (unat w)"
proof -
  assume "unat w < 2147483648"
  then have "int (unat w) < 2147483648" by linarith
  then have "int (unat w) < 2 ^ 31" by simp
  moreover have "- (2 ^ 31) \<le> int (unat w)" by (rule order_trans [of _ 0]) simp_all
  ultimately have t: "signed_take_bit 31 (int (unat w)) = int (unat w)"
    by (intro signed_take_bit_int_eq_self)
  have u: "uint w = int (unat w)" by (rule uint_nat)
  have s: "sint w = signed_take_bit 31 (uint w)" using sint_uint [of w] by simp
  show ?thesis by (simp only: s u t)
qed

lemma sint_nonneg_unat: "0 \<le> sint (w::32 word) \<Longrightarrow> unat w < 2147483648"
proof (rule ccontr)
  assume nn: "0 \<le> sint w" and "\<not> unat w < 2147483648"
  then have "2147483648 \<le> int (unat w)" by linarith
  then have "2 ^ 31 \<le> uint w" by (simp only: uint_nat) simp
  then have "signed_take_bit 31 (uint w) \<le> uint w - 2 ^ Suc 31"
    by (rule signed_take_bit_int_less_eq)
  then have le: "signed_take_bit 31 (uint w) \<le> uint w - 4294967296" by simp
  have lt: "uint w < 4294967296" using uint_lt2p [of w] by simp
  have eq: "sint w = signed_take_bit 31 (uint w)" using sint_uint [of w] by simp
  from le lt eq nn show False by linarith
qed

lemma sint_plus_one: "sint (w::32 word) < 2147483647 \<Longrightarrow> sint (w + 1) = sint w + 1"
proof -
  assume a: "sint w < 2147483647"
  have ge: "- (2 ^ 31) \<le> sint w" using sint_ge [of w] by simp
  have "sint (w + 1) = signed_take_bit 31 (sint w + 1)" using sint_word_add [of w 1] by simp
  also have "\<dots> = sint w + 1" using a ge by (intro signed_take_bit_int_eq_self) simp_all
  finally show ?thesis .
qed

lemma sint_INT_MAX: "sint (w::32 word) = 2147483647 \<Longrightarrow> w = 2147483647"
proof -
  assume "sint w = 2147483647"
  then have "sint w = sint (2147483647 :: 32 word)" by simp
  then show ?thesis by (rule signed_word_eqI)
qed

subsection \<open>What each operation does to the cache\<close>

lemmas op_defs = incrementRefcount_def incrementRefcount_SkBitmap_def incrementRefcount_SkMatrix_def
  incrementRefcount_SkPaint_def incrementRefcount_SkiaShader_def decrementRefcount_def
  decrementRefcount_SkBitmap_def decrementRefcount_SkiaShader_def recycle_def recycle_SkBitmap_def
  destructor_tracked_def destructor_SkBitmap_def destructor_SkMatrix_def destructor_SkPaint_def
  destructor_SkiaShader_def deleteResourceReference_def new_ResourceReference_def

lemma snd_incrementRefcount:
  "snd (incrementRefcount r ty m) =
     (case m r of None \<Rightarrow> m(r \<mapsto> \<lparr>refCount = 1, recycled = False, destroyed = False, resourceType = ty\<rparr>)
      | Some ref \<Rightarrow> m(r \<mapsto> ref\<lparr>refCount := refCount ref + 1\<rparr>))"
  by (auto simp: incrementRefcount_def new_ResourceReference_def Let_def split: option.splits)

lemma snd_decrementRefcount:
  "snd (decrementRefcount h r m) =
     (case m r of None \<Rightarrow> m
      | Some ref \<Rightarrow> if refCount ref = 1 then m(r := None) else m(r \<mapsto> ref\<lparr>refCount := refCount ref - 1\<rparr>))"
  by (auto simp: decrementRefcount_def deleteResourceReference_def Let_def word_minus_one_eq_0
      split: option.splits)

lemma snd_recycle:
  "snd (recycle h r m) =
     (case m r of None \<Rightarrow> m
      | Some ref \<Rightarrow> if refCount ref = 0 then m(r := None) else m(r \<mapsto> ref\<lparr>recycled := True\<rparr>))"
  by (auto simp: recycle_def deleteResourceReference_def Let_def split: option.splits)

lemma snd_destructor:
  "snd (destructor ty h r m) =
     (case m r of None \<Rightarrow> m
      | Some ref \<Rightarrow> if refCount ref = 0 then m(r := None) else m(r \<mapsto> ref\<lparr>destroyed := True\<rparr>))"
  by (cases ty) (auto simp: destructor_SkBitmap_def destructor_SkMatrix_def destructor_SkPaint_def
      destructor_SkiaShader_def destructor_tracked_def deleteResourceReference_def Let_def split: option.splits)

lemma snd_overloads:
  "snd (incrementRefcount_SkBitmap r m) = snd (incrementRefcount r kBitmap m)"
  "snd (incrementRefcount_SkMatrix r m) = snd (incrementRefcount r kMatrix m)"
  "snd (incrementRefcount_SkPaint r m) = snd (incrementRefcount r kPaint m)"
  "snd (incrementRefcount_SkiaShader r m) = snd (incrementRefcount r kShader m)"
  "snd (decrementRefcount_SkBitmap h r m) = snd (decrementRefcount h r m)"
  "snd (decrementRefcount_SkiaShader h r m) = snd (decrementRefcount h r m)"
  "snd (recycle_SkBitmap h r m) = snd (recycle h r m)"
  by (simp_all add: incrementRefcount_SkBitmap_def incrementRefcount_SkMatrix_def
      incrementRefcount_SkPaint_def incrementRefcount_SkiaShader_def
      decrementRefcount_SkBitmap_def decrementRefcount_SkiaShader_def recycle_SkBitmap_def
      recycle_def split_def Let_def)

lemma snd_run_Cons: "snd (run h (c # cs) m) = snd (run h cs (snd (exec h c m)))"
  by (simp add: split_def Let_def)

lemma fst_run_Cons: "fst (run h (c # cs) m) = fst (exec h c m) @ fst (run h cs (snd (exec h c m)))"
  by (simp add: split_def Let_def)



subsection \<open>The count of a tracked resource\<close>

text \<open>
  As long as a resource has been incremented fewer than \<open>2 ^ 32\<close> times, its count, if it
  is tracked, lies between 1 and the number of its increments.
\<close>

lemma incs_Cons:
  "incs r (c # cs) = (if is_increment c \<and> target c = r then Suc (incs r cs) else incs r cs)"
  by (simp add: incs_def)




text \<open>Repeated increments of one resource add up, modulo \<open>2 ^ 32\<close>.\<close>

lemma run_increments_tracked:
  "m r = Some ref \<Longrightarrow>
     snd (run h (replicate n (IncrementRefcount r ty)) m) =
       m(r \<mapsto> ref\<lparr>refCount := refCount ref + of_nat n\<rparr>)"
proof (induction n arbitrary: m ref)
  case 0
  then show ?case by (simp add: fun_upd_idem)
next
  case (Suc n)
  let ?ref = "ref\<lparr>refCount := refCount ref + 1\<rparr>"
  from Suc.prems have step: "snd (exec h (IncrementRefcount r ty) m) = m(r \<mapsto> ?ref)"
    by (simp add: snd_incrementRefcount)
  have "snd (run h (replicate n (IncrementRefcount r ty)) (m(r \<mapsto> ?ref))) =
      (m(r \<mapsto> ?ref))(r \<mapsto> ?ref\<lparr>refCount := refCount ?ref + of_nat n\<rparr>)"
    by (rule Suc.IH) simp
  with step show ?case
    by (simp only: replicate_Suc snd_run_Cons) (simp add: add.assoc)
qed

lemma run_increments_empty:
  "snd (run h (replicate (Suc n) (IncrementRefcount r ty)) Map.empty) =
     [r \<mapsto> \<lparr>refCount = of_nat (Suc n), recycled = False, destroyed = False, resourceType = ty\<rparr>]"
proof -
  let ?ref = "\<lparr>refCount = 1, recycled = False, destroyed = False, resourceType = ty\<rparr>"
  have step: "snd (exec h (IncrementRefcount r ty) Map.empty) = [r \<mapsto> ?ref]"
    by (simp add: snd_incrementRefcount)
  have "snd (run h (replicate n (IncrementRefcount r ty)) [r \<mapsto> ?ref]) =
      [r \<mapsto> ?ref](r \<mapsto> ?ref\<lparr>refCount := refCount ?ref + of_nat n\<rparr>)"
    by (rule run_increments_tracked) simp
  with step show ?thesis
    by (simp only: replicate_Suc snd_run_Cons) simp
qed

lemma exec_decrement_snd:
  "is_decrement d \<Longrightarrow> m (target d) = Some ref \<Longrightarrow>
     snd (exec h d m) =
       (if refCount ref = 1 then m(target d := None)
        else m(target d \<mapsto> ref\<lparr>refCount := refCount ref - 1\<rparr>))"
  by (cases d) (simp_all add: snd_overloads snd_decrementRefcount)

lemma exec_decrement_count:
  "is_decrement d \<Longrightarrow> m (target d) = Some ref \<Longrightarrow>
     count_list (fst (exec h d m)) (setPixels_NULL (target d)) =
       (if refCount ref = 1 \<and> recycled ref \<and> resourceType ref = kBitmap then 1 else 0)"
  by (cases d)
     (auto simp: decrementRefcount_SkBitmap_def decrementRefcount_SkiaShader_def
        decrementRefcount_def deleteResourceReference_def Let_def word_minus_one_eq_0
        split: ResourceType.splits)

lemma run_decrements:
  "\<forall>d \<in> set ds. is_decrement d \<and> target d = r \<Longrightarrow> ds \<noteq> [] \<Longrightarrow>
   m r = Some ref \<Longrightarrow> unat (refCount ref) = length ds \<Longrightarrow>
     count_list (fst (run h ds m)) (setPixels_NULL r) =
       (if recycled ref \<and> resourceType ref = kBitmap then 1 else 0) \<and>
     snd (run h ds m) = m(r := None)"
proof (induction ds arbitrary: m ref)
  case Nil
  then show ?case by simp
next
  case (Cons d ds)
  from Cons.prems have d: "is_decrement d" "m (target d) = Some ref" and r: "target d = r"
    by simp_all
  show ?case
  proof (cases "ds = []")
    case True
    with Cons.prems have "unat (refCount ref) = 1" by simp
    then have "refCount ref = 1" by (simp add: word_unat_eq_iff)
    with True r show ?thesis
      using exec_decrement_snd [where d = d and m = m and ref = ref and h = h, OF d]
        exec_decrement_count [where d = d and m = m and ref = ref and h = h, OF d]
      by (simp add: split_def Let_def)
  next
    case False
    with Cons.prems have two: "2 \<le> unat (refCount ref)" by (cases ds) simp_all
    then have ne: "refCount ref \<noteq> 1" by auto
    from two have "refCount ref \<noteq> 0" by auto
    then have less: "unat (refCount ref - 1) = unat (refCount ref) - 1" by (rule unat_minus_one)
    let ?ref = "ref\<lparr>refCount := refCount ref - 1\<rparr>"
    let ?m = "m(r \<mapsto> ?ref)"
    have step: "snd (exec h d m) = ?m" "count_list (fst (exec h d m)) (setPixels_NULL r) = 0"
      using exec_decrement_snd [where d = d and m = m and ref = ref and h = h, OF d]
        exec_decrement_count [where d = d and m = m and ref = ref and h = h, OF d] ne r
      by simp_all
    have "count_list (fst (run h ds ?m)) (setPixels_NULL r) =
        (if recycled ?ref \<and> resourceType ?ref = kBitmap then 1 else 0) \<and>
      snd (run h ds ?m) = ?m(r := None)"
      using Cons.prems False less by (intro Cons.IH) simp_all
    with step show ?thesis
      by (simp only: fst_run_Cons snd_run_Cons count_list_append) simp
  qed
qed

subsection \<open>Claims about the resource cache\<close>

text \<open>
  Claim C1 says that an entry whose count is decremented to 0 while neither flag is set
  stays in the cache. \<open>deleteResourceReference\<close> runs whenever the count reaches 0 and
  ends with \<^verbatim>\<open>mCache->removeItem(resource)\<close> whatever the flags are: a resource
  incremented once and decremented once is no longer tracked.
\<close>

theorem decrement_to_zero_removes_unflagged_entry:
  "snd (incrementRefcount 1 kBitmap Map.empty) 1 =
     Some \<lparr>refCount = 1, recycled = False, destroyed = False, resourceType = kBitmap\<rparr> \<and>
   snd (decrementRefcount False 1 (snd (incrementRefcount 1 kBitmap Map.empty))) 1 = None"
  by (simp add: op_defs Let_def)

text \<open>
  Claim C1, amended. A call removes the entry of a tracked resource exactly when it is a
  decrement of that resource that brings the count to 0 (the flags play no part), or a
  recycle or destructor call on it that finds the count at 0. A call makes an untracked
  resource tracked exactly when it is an increment of that resource; so an entry that
  was removed can be removed again only after a later increment has created it anew.
\<close>

theorem entry_removed_iff:
  "(mCache r = Some ref \<longrightarrow>
      (snd (exec h c mCache) r = None) =
        (target c = r \<and>
         (if is_decrement c then refCount ref = 1 else \<not> is_increment c \<and> refCount ref = 0))) \<and>
   (mCache r = None \<longrightarrow>
      (snd (exec h c mCache) r \<noteq> None) = (target c = r \<and> is_increment c))"
  by (cases c)
     (auto simp: snd_overloads snd_incrementRefcount snd_decrementRefcount snd_recycle
        snd_destructor split: option.splits)

theorem entry_removed_iff_witness:
  "(snd (exec True (DecrementRefcount 2)
        [2 \<mapsto> \<lparr>refCount = 1, recycled = False, destroyed = False, resourceType = kMatrix\<rparr>]) 2 = None) \<and>
   [2 \<mapsto> \<lparr>refCount = 1, recycled = False, destroyed = False, resourceType = kMatrix\<rparr>] (5::resource) = None \<and>
   (snd (exec True (IncrementRefcount 5 kPaint)
        [2 \<mapsto> \<lparr>refCount = 1, recycled = False, destroyed = False, resourceType = kMatrix\<rparr>]) 5 \<noteq> None)"
  using entry_removed_iff [of
      "[2 \<mapsto> \<lparr>refCount = 1, recycled = False, destroyed = False, resourceType = kMatrix\<rparr>]" 2
      "\<lparr>refCount = 1, recycled = False, destroyed = False, resourceType = kMatrix\<rparr>"
      True "DecrementRefcount 2"]
    entry_removed_iff [of
      "[2 \<mapsto> \<lparr>refCount = 1, recycled = False, destroyed = False, resourceType = kMatrix\<rparr>]" 5
      "\<lparr>refCount = 1, recycled = False, destroyed = False, resourceType = kMatrix\<rparr>"
      True "IncrementRefcount 5 kPaint"]
  by simp

text \<open>
  Claim C2 says that the last decrement of the scenario calls \<^verbatim>\<open>textureCache.remove\<close>
  once. The source does so only under \<^verbatim>\<open>if (Caches::hasInstance())\<close>: when the singleton
  does not exist the bitmap is deleted and the texture cache is not called.
\<close>

theorem scenario_without_Caches_skips_textureCache:
  "fst (run False [IncrementRefcount 7 kBitmap, IncrementRefcount 7 kBitmap,
          Destructor kBitmap 7, DecrementRefcount 7, DecrementRefcount 7] Map.empty) = [delete 7] \<and>
   count_list (fst (run False [IncrementRefcount 7 kBitmap, IncrementRefcount 7 kBitmap,
          Destructor kBitmap 7, DecrementRefcount 7, DecrementRefcount 7] Map.empty))
     (textureCache_remove 7) = 0"
  by (simp add: op_defs Let_def)

text \<open>
  Claim C2, amended. For a bitmap \<open>R\<close> that is not tracked: two increments give a count of
  2; the destructor sets \<open>destroyed\<close>, has no effect and leaves \<open>R\<close> tracked; the first
  decrement leaves a count of 1 and has no effect; the second decrement removes \<open>R\<close>
  from the cache and deletes the bitmap once, after one call of \<^verbatim>\<open>textureCache.remove\<close>
  if the singleton of \<^verbatim>\<open>Caches\<close> exists and no such call otherwise. These are the only
  effects of the whole sequence.
\<close>

theorem destroy_scenario:
  "mCache R = None \<Longrightarrow>
     run h [IncrementRefcount R kBitmap, IncrementRefcount R kBitmap] mCache =
       ([], mCache(R \<mapsto> \<lparr>refCount = 2, recycled = False, destroyed = False, resourceType = kBitmap\<rparr>)) \<and>
     destructor_SkBitmap h
         R (mCache(R \<mapsto> \<lparr>refCount = 2, recycled = False, destroyed = False, resourceType = kBitmap\<rparr>)) =
       ([], mCache(R \<mapsto> \<lparr>refCount = 2, recycled = False, destroyed = True, resourceType = kBitmap\<rparr>)) \<and>
     decrementRefcount h
         R (mCache(R \<mapsto> \<lparr>refCount = 2, recycled = False, destroyed = True, resourceType = kBitmap\<rparr>)) =
       ([], mCache(R \<mapsto> \<lparr>refCount = 1, recycled = False, destroyed = True, resourceType = kBitmap\<rparr>)) \<and>
     decrementRefcount h
         R (mCache(R \<mapsto> \<lparr>refCount = 1, recycled = False, destroyed = True, resourceType = kBitmap\<rparr>)) =
       ((if h then [textureCache_remove R] else []) @ [delete R], mCache) \<and>
     run h [IncrementRefcount R kBitmap, IncrementRefcount R kBitmap, Destructor kBitmap R,
         DecrementRefcount R, DecrementRefcount R] mCache =
       ((if h then [textureCache_remove R] else []) @ [delete R], mCache)"
  by (auto simp: op_defs Let_def fun_upd_idem)

theorem destroy_scenario_witness:
  "run True [IncrementRefcount 7 kBitmap, IncrementRefcount 7 kBitmap, Destructor kBitmap 7,
         DecrementRefcount 7, DecrementRefcount 7] Map.empty =
       ([textureCache_remove 7, delete 7], Map.empty)"
  using destroy_scenario [where mCache = Map.empty and R = 7 and h = True] by simp

text \<open>
  Claim C3 says that recycling a resource that is not tracked does nothing to the
  resource. \<^verbatim>\<open>recycle(SkBitmap*)\<close> does release the pixels of an untracked bitmap itself
  (\<^verbatim>\<open>resource->setPixels(NULL, NULL)\<close>); only \<^verbatim>\<open>recycle(void*)\<close> does nothing.
\<close>

theorem recycle_SkBitmap_untracked_releases_pixels:
  "recycle_SkBitmap False 3 Map.empty = ([setPixels_NULL 3], Map.empty)"
  by (simp add: recycle_SkBitmap_def)

text \<open>
  Claim C3, amended. For a resource that is not tracked, both \<open>recycle\<close> calls leave the
  cache as it was; \<^verbatim>\<open>recycle(void*)\<close> has no effect, and \<^verbatim>\<open>recycle(SkBitmap*)\<close> releases
  the pixels of the bitmap at once. For a tracked resource both calls do the same: they
  set \<open>recycled\<close>, and if the count is 0 they run \<open>deleteResourceReference\<close> at once, which
  removes the entry; otherwise nothing else happens.
\<close>

theorem recycle_cases:
  "(mCache r = None \<longrightarrow>
      recycle h r mCache = ([], mCache) \<and>
      recycle_SkBitmap h r mCache = ([setPixels_NULL r], mCache)) \<and>
   (mCache r = Some ref \<longrightarrow>
      recycle_SkBitmap h r mCache = recycle h r mCache \<and>
      (refCount ref \<noteq> 0 \<longrightarrow> recycle h r mCache = ([], mCache(r \<mapsto> ref\<lparr>recycled := True\<rparr>))) \<and>
      (refCount ref = 0 \<longrightarrow>
         recycle h r mCache =
           deleteResourceReference h r (ref\<lparr>recycled := True\<rparr>)
             (mCache(r \<mapsto> ref\<lparr>recycled := True\<rparr>)) \<and>
         snd (recycle h r mCache) = mCache(r := None)))"
  by (simp add: recycle_def recycle_SkBitmap_def Let_def deleteResourceReference_def)

theorem recycle_cases_witness:
  "recycle True 3 Map.empty = ([], Map.empty) \<and>
   recycle_SkBitmap True 3 Map.empty = ([setPixels_NULL 3], Map.empty) \<and>
   recycle True 3 [3 \<mapsto> \<lparr>refCount = 2, recycled = False, destroyed = False, resourceType = kBitmap\<rparr>] =
     ([], [3 \<mapsto> \<lparr>refCount = 2, recycled = True, destroyed = False, resourceType = kBitmap\<rparr>]) \<and>
   recycle True 3 [3 \<mapsto> \<lparr>refCount = 0, recycled = False, destroyed = True, resourceType = kBitmap\<rparr>] =
     ([setPixels_NULL 3, textureCache_remove 3, delete 3], Map.empty)"
  using recycle_cases [where mCache = Map.empty and r = 3 and h = True]
    recycle_cases [where r = 3 and h = True
      and mCache = "[3 \<mapsto> \<lparr>refCount = 2, recycled = False, destroyed = False, resourceType = kBitmap\<rparr>]"
      and ref = "\<lparr>refCount = 2, recycled = False, destroyed = False, resourceType = kBitmap\<rparr>"]
    recycle_cases [where r = 3 and h = True
      and mCache = "[3 \<mapsto> \<lparr>refCount = 0, recycled = False, destroyed = True, resourceType = kBitmap\<rparr>]"
      and ref = "\<lparr>refCount = 0, recycled = False, destroyed = True, resourceType = kBitmap\<rparr>"]
  by (simp add: deleteResourceReference_def)

text \<open>
  Claim C4 says that the destructor of an untracked bitmap or shader tells the texture
  cache or the gradient cache to drop what it derived from the resource. The source
  does so only under \<^verbatim>\<open>if (Caches::hasInstance())\<close>: without the singleton the resource is
  deleted and neither cache is called.
\<close>

theorem destructor_untracked_without_Caches:
  "destructor_SkBitmap False 3 Map.empty = ([delete 3], Map.empty) \<and>
   destructor_SkiaShader False 3 Map.empty = ([delete 3], Map.empty)"
  by (simp add: destructor_SkBitmap_def destructor_SkiaShader_def)

text \<open>
  Claim C4, amended. The destructor of an untracked resource deletes it at once and
  leaves the cache as it was; before the deletion, and only if the singleton of
  \<^verbatim>\<open>Caches\<close> exists, the destructor of a bitmap calls \<^verbatim>\<open>textureCache.remove\<close> with the
  bitmap and the destructor of a shader calls \<^verbatim>\<open>gradientCache.remove\<close> with the
  \<^verbatim>\<open>SkShader\<close> of the shader; the destructors of a matrix and of a paint call no cache.
  The destructor of a tracked resource sets \<open>destroyed\<close> and has no effect while the count
  is not 0; if the count is 0 it runs \<open>deleteResourceReference\<close> at once, which removes the
  entry.
\<close>

theorem destructor_cases:
  "(mCache r = None \<longrightarrow>
      destructor_SkBitmap h r mCache =
        ((if h then [textureCache_remove r] else []) @ [delete r], mCache) \<and>
      destructor_SkiaShader h r mCache =
        ((if h then [gradientCache_remove (getSkShader r)] else []) @ [delete r], mCache) \<and>
      destructor_SkMatrix h r mCache = ([delete r], mCache) \<and>
      destructor_SkPaint h r mCache = ([delete r], mCache)) \<and>
   (mCache r = Some ref \<longrightarrow>
      (refCount ref \<noteq> 0 \<longrightarrow>
         destructor ty h r mCache = ([], mCache(r \<mapsto> ref\<lparr>destroyed := True\<rparr>))) \<and>
      (refCount ref = 0 \<longrightarrow>
         destructor ty h r mCache =
           deleteResourceReference h r (ref\<lparr>destroyed := True\<rparr>)
             (mCache(r \<mapsto> ref\<lparr>destroyed := True\<rparr>)) \<and>
         snd (destructor ty h r mCache) = mCache(r := None)))"
  by (cases ty)
     (simp_all add: destructor_SkBitmap_def destructor_SkMatrix_def destructor_SkPaint_def
        destructor_SkiaShader_def destructor_tracked_def Let_def deleteResourceReference_def)

theorem destructor_cases_witness:
  "destructor_SkBitmap True 3 Map.empty = ([textureCache_remove 3, delete 3], Map.empty) \<and>
   destructor_SkiaShader True 3 Map.empty =
     ([gradientCache_remove (getSkShader 3), delete 3], Map.empty) \<and>
   destructor_SkMatrix True 3 Map.empty = ([delete 3], Map.empty) \<and>
   destructor_SkPaint True 3 Map.empty = ([delete 3], Map.empty) \<and>
   destructor kShader True 3
       [3 \<mapsto> \<lparr>refCount = 1, recycled = False, destroyed = False, resourceType = kShader\<rparr>] =
     ([], [3 \<mapsto> \<lparr>refCount = 1, recycled = False, destroyed = True, resourceType = kShader\<rparr>]) \<and>
   destructor kShader True 3
       [3 \<mapsto> \<lparr>refCount = 0, recycled = False, destroyed = False, resourceType = kShader\<rparr>] =
     ([gradientCache_remove (getSkShader 3), delete 3], Map.empty)"
  using destructor_cases [where mCache = Map.empty and r = 3 and h = True]
    destructor_cases [where r = 3 and h = True and ty = kShader
      and mCache = "[3 \<mapsto> \<lparr>refCount = 1, recycled = False, destroyed = False, resourceType = kShader\<rparr>]"
      and ref = "\<lparr>refCount = 1, recycled = False, destroyed = False, resourceType = kShader\<rparr>"]
    destructor_cases [where r = 3 and h = True and ty = kShader
      and mCache = "[3 \<mapsto> \<lparr>refCount = 0, recycled = False, destroyed = False, resourceType = kShader\<rparr>]"
      and ref = "\<lparr>refCount = 0, recycled = False, destroyed = False, resourceType = kShader\<rparr>"]
  by (simp add: deleteResourceReference_def)

text \<open>
  Claim C5. Let a bitmap be tracked with a count above 0. One recycle call (of either
  overload) sets \<open>recycled\<close> and has no effect; a second one changes nothing, and a second
  destructor call changes nothing either. After two recycle calls, decrement calls (of
  any overload) that take the count to 0 release the pixels exactly once, and the
  resource is no longer tracked.
\<close>

theorem recycle_twice_releases_pixels_once:
  assumes "mCache r = Some ref" and "resourceType ref = kBitmap" and "0 < sint (refCount ref)"
    and "is_recycle_of r c1" and "is_recycle_of r c2"
    and "\<forall>d \<in> set ds. is_decrement d \<and> target d = r" and "int (length ds) = sint (refCount ref)"
  shows "exec h c1 mCache = ([], mCache(r \<mapsto> ref\<lparr>recycled := True\<rparr>)) \<and>
     run h [c1, c2] mCache = exec h c1 mCache \<and>
     destructor ty h r (snd (destructor ty h r mCache)) = destructor ty h r mCache \<and>
     count_list (fst (run h ([c1, c2] @ ds) mCache)) (setPixels_NULL r) = 1 \<and>
     snd (run h ([c1, c2] @ ds) mCache) = mCache(r := None)"
proof -
  let ?ref = "ref\<lparr>recycled := True\<rparr>"
  let ?m = "mCache(r \<mapsto> ?ref)"
  from assms(3) have nz: "refCount ref \<noteq> 0" by auto
  from assms(3) have "unat (refCount ref) < 2147483648" by (intro sint_nonneg_unat) simp
  then have "sint (refCount ref) = int (unat (refCount ref))" by (rule sint_eq_unat)
  with assms(7) have len: "unat (refCount ref) = length ds" by linarith
  have rec: "exec h c mCache = ([], ?m)" "exec h c ?m = ([], ?m)" if "is_recycle_of r c" for c
    using that assms(1) nz by (auto simp: is_recycle_of_def recycle_def recycle_SkBitmap_def Let_def)
  have two: "run h [c1, c2] mCache = ([], ?m)"
    using rec [OF assms(4)] rec [OF assms(5)] by (simp add: Let_def)
  have destr: "destructor ty h r (snd (destructor ty h r mCache)) = destructor ty h r mCache"
    using assms(1) nz
    by (cases ty)
       (simp_all add: destructor_SkBitmap_def destructor_SkMatrix_def destructor_SkPaint_def
          destructor_SkiaShader_def destructor_tracked_def Let_def)
  from assms(3,7) have "ds \<noteq> []" by auto
  have len': "unat (refCount ?ref) = length ds" using len by simp
  from run_decrements [where ds = ds and r = r and m = ?m and ref = ?ref and h = h,
      OF assms(6) \<open>ds \<noteq> []\<close> _ len'] assms(2)
  have "count_list (fst (run h ds ?m)) (setPixels_NULL r) = 1"
    and "snd (run h ds ?m) = mCache(r := None)" by simp_all
  moreover have "fst (run h ([c1, c2] @ ds) mCache) = fst (run h ds ?m)"
    "snd (run h ([c1, c2] @ ds) mCache) = snd (run h ds ?m)"
    using rec [OF assms(4)] rec [OF assms(5)]
    by (simp_all only: append.simps fst_run_Cons snd_run_Cons fst_conv snd_conv append_Nil)
  ultimately show ?thesis using rec(1) [OF assms(4)] two destr by simp
qed

theorem recycle_twice_releases_pixels_once_witness:
  "run True [Recycle 6, Recycle_SkBitmap 6, DecrementRefcount_SkBitmap 6, DecrementRefcount 6]
     [6 \<mapsto> \<lparr>refCount = 2, recycled = False, destroyed = False, resourceType = kBitmap\<rparr>] =
   ([safeUnref (pixelRef 6), safeUnref (getColorTable 6), setPixels_NULL 6], Map.empty) \<and>
   count_list (fst (run True
       ([Recycle 6, Recycle_SkBitmap 6] @ [DecrementRefcount_SkBitmap 6, DecrementRefcount 6])
     [6 \<mapsto> \<lparr>refCount = 2, recycled = False, destroyed = False, resourceType = kBitmap\<rparr>]))
     (setPixels_NULL 6) = 1"
proof -
  let ?ref = "\<lparr>refCount = 2, recycled = False, destroyed = False, resourceType = kBitmap\<rparr>"
  let ?ds = "[DecrementRefcount_SkBitmap 6, DecrementRefcount 6]"
  have a: "[6 \<mapsto> ?ref] (6::resource) = Some ?ref" "resourceType ?ref = kBitmap" "0 < sint (refCount ?ref)"
    "is_recycle_of 6 (Recycle 6)" "is_recycle_of 6 (Recycle_SkBitmap 6)"
    "\<forall>d \<in> set ?ds. is_decrement d \<and> target d = 6" "int (length ?ds) = sint (refCount ?ref)"
    by (simp_all add: is_recycle_of_def)
  note t = recycle_twice_releases_pixels_once [where h = True and ty = kBitmap
      and mCache = "[6 \<mapsto> ?ref]" and r = 6 and ref = ?ref and ?c1.0 = "Recycle 6"
      and ?c2.0 = "Recycle_SkBitmap 6" and ds = ?ds, OF a(1) a(2) a(3) a(4) a(5) a(6) a(7)]
  have run: "run True [Recycle 6, Recycle_SkBitmap 6, DecrementRefcount_SkBitmap 6, DecrementRefcount 6]
     [6 \<mapsto> ?ref] =
   ([safeUnref (pixelRef 6), safeUnref (getColorTable 6), setPixels_NULL 6], Map.empty)"
    by (simp add: op_defs Let_def)
  from t have "count_list (fst (run True ([Recycle 6, Recycle_SkBitmap 6] @ ?ds) [6 \<mapsto> ?ref]))
     (setPixels_NULL 6) = 1"
    by (elim conjE)
  with run show ?thesis by (intro conjI)
qed







text \<open>
  Claim C10 says that an increment of a tracked resource makes its count greater by
  exactly 1. The count is a 32-bit number: a resource incremented 2147483647 times has
  the count 2147483647, and the next increment takes it to -2147483648.
\<close>

theorem incrementRefcount_wraps_at_2147483647:
  "snd (run False (replicate 2147483647 (IncrementRefcount 4 kBitmap)) Map.empty) =
     [4 \<mapsto> \<lparr>refCount = 2147483647, recycled = False, destroyed = False, resourceType = kBitmap\<rparr>] \<and>
   incrementRefcount 4 kBitmap
     [4 \<mapsto> \<lparr>refCount = 2147483647, recycled = False, destroyed = False, resourceType = kBitmap\<rparr>] =
     ([], [4 \<mapsto> \<lparr>refCount = 2147483648, recycled = False, destroyed = False, resourceType = kBitmap\<rparr>]) \<and>
   sint (2147483647 :: 32 word) = 2147483647 \<and>
   sint (2147483648 :: 32 word) = - 2147483648"
proof -
  have "snd (run False (replicate (Suc 2147483646) (IncrementRefcount 4 kBitmap)) Map.empty) =
     [4 \<mapsto> \<lparr>refCount = of_nat (Suc 2147483646), recycled = False, destroyed = False,
        resourceType = kBitmap\<rparr>]"
    by (rule run_increments_empty)
  then have "snd (run False (replicate 2147483647 (IncrementRefcount 4 kBitmap)) Map.empty) =
     [4 \<mapsto> \<lparr>refCount = 2147483647, recycled = False, destroyed = False, resourceType = kBitmap\<rparr>]"
    by simp
  then show ?thesis by (simp add: incrementRefcount_def Let_def)
qed

text \<open>
  Claim C10, amended. For a resource that is already tracked, \<open>incrementRefcount\<close> changes
  nothing but that reference's count, to which it adds 1 in 32-bit arithmetic: the count
  grows by exactly 1 if it was below 2147483647, and wraps to -2147483648 if it was
  2147483647. The reference keeps its type and both flags, every other entry of the cache
  is as before, no entry is added, and there is no effect outside the cache. The type
  passed to the call is not used.
\<close>

theorem incrementRefcount_tracked_frame:
  "mCache resource = Some ref \<Longrightarrow>
     incrementRefcount resource ty mCache =
       ([], mCache(resource \<mapsto> ref\<lparr>refCount := refCount ref + 1\<rparr>)) \<and>
     (\<exists>ref'. snd (incrementRefcount resource ty mCache) resource = Some ref' \<and>
        refCount ref' = refCount ref + 1 \<and>
        (sint (refCount ref) < 2147483647 \<longrightarrow> sint (refCount ref') = sint (refCount ref) + 1) \<and>
        (sint (refCount ref) = 2147483647 \<longrightarrow> sint (refCount ref') = - 2147483648) \<and>
        resourceType ref' = resourceType ref \<and>
        recycled ref' = recycled ref \<and> destroyed ref' = destroyed ref) \<and>
     (\<forall>r. r \<noteq> resource \<longrightarrow> snd (incrementRefcount resource ty mCache) r = mCache r) \<and>
     dom (snd (incrementRefcount resource ty mCache)) = dom mCache"
proof -
  assume tracked: "mCache resource = Some ref"
  have max: "sint (refCount ref) = 2147483647 \<longrightarrow> sint (refCount ref + 1) = - 2147483648"
  proof
    assume "sint (refCount ref) = 2147483647"
    then have "refCount ref = 2147483647" by (rule sint_INT_MAX)
    then show "sint (refCount ref + 1) = - 2147483648" by simp
  qed
  have "sint (refCount ref) < 2147483647 \<longrightarrow> sint (refCount ref + 1) = sint (refCount ref) + 1"
    by (simp add: sint_plus_one)
  with max tracked show ?thesis
    by (auto simp: incrementRefcount_def Let_def)
qed

theorem incrementRefcount_tracked_frame_witness:
  "incrementRefcount 4 kPaint
      [4 \<mapsto> \<lparr>refCount = 2, recycled = True, destroyed = False, resourceType = kBitmap\<rparr>] =
    ([], [4 \<mapsto> \<lparr>refCount = 3, recycled = True, destroyed = False, resourceType = kBitmap\<rparr>])"
  using incrementRefcount_tracked_frame
    [where mCache = "[4 \<mapsto> \<lparr>refCount = 2, recycled = True, destroyed = False, resourceType = kBitmap\<rparr>]"
      and resource = 4 and ty = kPaint
      and ref = "\<lparr>refCount = 2, recycled = True, destroyed = False, resourceType = kBitmap\<rparr>"]
  by simp

section \<open>Properties of the bounded recency cache\<close>

subsection \<open>Eviction and the weight\<close>

lemma total_weight_simps [simp]:
  "total_weight weight [] = 0"
  "total_weight weight ((k, v) # es) = weight v + total_weight weight es"
  "total_weight weight (xs @ ys) = total_weight weight xs + total_weight weight ys"
  by (simp_all add: total_weight_def)











text \<open>
  With a budget below \<open>2 ^ 31\<close> the sum that \<open>put\<close> compares with the budget fits 32 bits.
\<close>

lemma put_sum_below_2_32:
  "weight_ok weight c \<Longrightarrow> weight val \<le> maxWeight c \<Longrightarrow> maxWeight c < 2 ^ 31 \<Longrightarrow>
     currentWeight c + weight val < 2 ^ 32"
  by (simp add: weight_ok_def)

subsection \<open>Claims about the bounded recency cache\<close>






end
